theory Spec2Isabelle
  imports Complex_Main "HOL-Library.Word"
begin

unbundle bit_operations_syntax

section \<open>Decoded payloads: the values held by \<open>interface{}\<close>\<close>

text \<open>
  \<open>packages/shared\<close> navigates \<open>map[string]interface{}\<close> trees. The dynamic values
  that occur are the ones \<open>encoding/json\<close> produces (\<open>nil\<close>, \<open>bool\<close>, \<open>float64\<close>,
  \<open>string\<close>, \<open>[]interface{}\<close>, \<open>map[string]interface{}\<close>) and, in \<open>map_test.go\<close>,
  Go literals of type \<open>int\<close>. A \<open>float64\<close> is represented by the rational number it
  denotes (JSON decoding yields neither NaN nor an infinity). A map is an association
  list read with \<open>map_of\<close>; the nil map and the empty map are both \<open>VMap []\<close>.
\<close>

datatype gval =
    VNil
  | VBool bool
  | VFloat64 rat
  | VInt int
  | VString string
  | VSlice "gval list"
  | VMap "(string \<times> gval) list"

text \<open>The type argument \<open>T\<close> of the generic functions: the types the repository
  instantiates them at (\<open>string\<close>, \<open>float64\<close>, \<open>int\<close>), and \<open>bool\<close>.\<close>

datatype gotype = TString | TFloat64 | TInt | TBool

text \<open>\<open>reflect.Zero(reflect.TypeOf((*T)(nil)).Elem()).Interface().(T)\<close>\<close>

fun zero :: "gotype \<Rightarrow> gval" where
  "zero TString = VString []"
| "zero TFloat64 = VFloat64 0"
| "zero TInt = VInt 0"
| "zero TBool = VBool False"

text \<open>The type assertion \<open>val.(T)\<close> for a concrete \<open>T\<close>: it holds exactly when the
  dynamic type of \<open>val\<close> is \<open>T\<close>.\<close>

fun assertT :: "gotype \<Rightarrow> gval \<Rightarrow> bool" where
  "assertT TString (VString s) = True"
| "assertT TFloat64 (VFloat64 q) = True"
| "assertT TInt (VInt i) = True"
| "assertT TBool (VBool b) = True"
| "assertT T v = False"

section \<open>\<open>LookupMap\<close>: the silent navigator\<close>

text \<open>The \<open>for _, key := range keys\<close> loop of \<open>LookupMap\<close>; \<open>None\<close> is either of
  its two early returns.\<close>

fun LookupMap_loop :: "gval \<Rightarrow> string list \<Rightarrow> gval option" where
  "LookupMap_loop val [] = Some val"
| "LookupMap_loop val (key # keys) =
     (case val of
        VMap m \<Rightarrow>
          (case map_of m key of
             None \<Rightarrow> None
           | Some v \<Rightarrow> LookupMap_loop v keys)
      | _ \<Rightarrow> None)"

definition LookupMap :: "gotype \<Rightarrow> (string \<times> gval) list \<Rightarrow> string list \<Rightarrow> gval \<times> bool" where
  "LookupMap T m keys =
     (case LookupMap_loop (VMap m) keys of
        None \<Rightarrow> (zero T, False)
      | Some val \<Rightarrow> if assertT T val then (val, True) else (zero T, False))"

section \<open>\<open>LookupMapE\<close>: the diagnostic navigator\<close>

text \<open>
  The three \<open>fmt.Errorf\<close> calls of \<open>LookupMapE\<close>, with the arguments they format:
  \<^item> \<open>"key %s is not a map: %v"\<close> with the joined \<open>walkedKeys\<close> and \<open>m\<close>, which the failed
    assertion has just set to the nil map;
  \<^item> \<open>"key %s not found in %v"\<close> with the joined \<open>walkedKeys\<close> and the map \<open>m\<close>;
  \<^item> \<open>"value %v is not of type %T"\<close> with \<open>val\<close> and the zero value of \<open>T\<close>.
\<close>

datatype lookup_error =
    NotAMap "string list"
  | NotFound "string list" "(string \<times> gval) list"
  | NotOfType gval gotype

fun LookupMapE_loop :: "gval \<Rightarrow> string list \<Rightarrow> string list \<Rightarrow> lookup_error + gval" where
  "LookupMapE_loop val walkedKeys [] = Inr val"
| "LookupMapE_loop val walkedKeys (key # keys) =
     (case val of
        VMap m \<Rightarrow>
          (case map_of m key of
             None \<Rightarrow> Inl (NotFound (walkedKeys @ [key]) m)
           | Some v \<Rightarrow> LookupMapE_loop v (walkedKeys @ [key]) keys)
      | _ \<Rightarrow> Inl (NotAMap walkedKeys))"

definition LookupMapE :: "gotype \<Rightarrow> (string \<times> gval) list \<Rightarrow> string list \<Rightarrow> lookup_error + gval" where
  "LookupMapE T m keys =
     (case LookupMapE_loop (VMap m) [] keys of
        Inl e \<Rightarrow> Inl e
      | Inr val \<Rightarrow> if assertT T val then Inr val else Inl (NotOfType val T))"

text \<open>\<open>strings.Join\<close>\<close>

fun Join :: "string list \<Rightarrow> string \<Rightarrow> string" where
  "Join [] sep = []"
| "Join [s] sep = s"
| "Join (s # t # ss) sep = s @ sep @ Join (t # ss) sep"

text \<open>\<open>%T\<close> of a value of type \<open>T\<close>\<close>

fun typeName :: "gotype \<Rightarrow> string" where
  "typeName TString = ''string''"
| "typeName TFloat64 = ''float64''"
| "typeName TInt = ''int''"
| "typeName TBool = ''bool''"

text \<open>The message of a \<open>LookupMapE\<close> error. \<open>fmtV\<close> is the \<open>%v\<close> verb of package
  \<open>fmt\<close>, which is not part of the repository.\<close>

fun lookup_error_message :: "(gval \<Rightarrow> string) \<Rightarrow> lookup_error \<Rightarrow> string" where
  "lookup_error_message fmtV (NotAMap walkedKeys) =
     ''key '' @ Join walkedKeys ''.'' @ '' is not a map: '' @ fmtV (VMap [])"
| "lookup_error_message fmtV (NotFound walkedKeys m) =
     ''key '' @ Join walkedKeys ''.'' @ '' not found in '' @ fmtV (VMap m)"
| "lookup_error_message fmtV (NotOfType val T) =
     ''value '' @ fmtV val @ '' is not of type '' @ typeName T"

text \<open>The literal map \<open>m\<close> of \<open>lookupNested\<close>: \<open>{"a": {"b": {"c": "d"}}}\<close>.\<close>

definition lookupNested_m :: "(string \<times> gval) list" where
  "lookupNested_m = [(''a'', VMap [(''b'', VMap [(''c'', VString ''d'')])])]"

text \<open>
  The navigation contract in the specification's words, to compare the two loops with:
  the keys are walked in order; at each step the current node must be a mapping and the
  key must be present in it. \<open>resolves root keys v\<close>: every key resolves, and the walk
  ends at \<open>v\<close>.
\<close>

inductive resolves :: "gval \<Rightarrow> string list \<Rightarrow> gval \<Rightarrow> bool" where
  resolves_Nil: "resolves v [] v"
| resolves_Cons:
    "map_of m key = Some v \<Longrightarrow> resolves v keys r \<Longrightarrow> resolves (VMap m) (key # keys) r"

code_pred resolves .

text \<open>The instances \<open>LookupMap[string]\<close> and \<open>LookupMap[float64]\<close> as the callers
  receive them: a Go \<open>string\<close>, a Go \<open>float64\<close>.\<close>

fun the_string :: "gval \<Rightarrow> string" where
  "the_string (VString s) = s"
| "the_string v = []"

fun the_float64 :: "gval \<Rightarrow> rat" where
  "the_float64 (VFloat64 q) = q"
| "the_float64 v = 0"

definition LookupMap_string :: "(string \<times> gval) list \<Rightarrow> string list \<Rightarrow> string \<times> bool" where
  "LookupMap_string m keys = (case LookupMap TString m keys of (v, ok) \<Rightarrow> (the_string v, ok))"

definition LookupMap_float64 :: "(string \<times> gval) list \<Rightarrow> string list \<Rightarrow> rat \<times> bool" where
  "LookupMap_float64 m keys = (case LookupMap TFloat64 m keys of (v, ok) \<Rightarrow> (the_float64 v, ok))"

definition LookupMapE_string :: "(string \<times> gval) list \<Rightarrow> string list \<Rightarrow> lookup_error + string" where
  "LookupMapE_string m keys = map_sum id the_string (LookupMapE TString m keys)"

definition LookupMapE_float64 :: "(string \<times> gval) list \<Rightarrow> string list \<Rightarrow> lookup_error + rat" where
  "LookupMapE_float64 m keys = map_sum id the_float64 (LookupMapE TFloat64 m keys)"

section \<open>Runtime panics\<close>

text \<open>The two run-time panics the modelled code can raise: indexing a slice out of
  range (\<open>headers["X-Github-Event"][0]\<close>) and slicing a string beyond its length
  (\<open>signature[len(signaturePrefix):]\<close>).\<close>

datatype panic = IndexOutOfRange | SliceBoundsOutOfRange

section \<open>The webhook receiver: \<open>verifyGithubSignature256\<close>\<close>

text \<open>The verifier of the event handler that \<open>authorizedSources\<close> registers for the
  header \<open>X-Hub-Signature-256\<close>.\<close>

type_synonym byte = "8 word"

text \<open>\<open>encoding/hex\<close>: one hexadecimal digit, of either case.\<close>

definition fromHexChar :: "char \<Rightarrow> byte option" where
  "fromHexChar c =
     (let n = (of_char c :: nat) in
      if 48 \<le> n \<and> n \<le> 57 then Some (of_nat (n - 48))
      else if 97 \<le> n \<and> n \<le> 102 then Some (of_nat (n - 97 + 10))
      else if 65 \<le> n \<and> n \<le> 70 then Some (of_nat (n - 65 + 10))
      else None)"

datatype hex_error = InvalidByteError char | ErrLength

text \<open>\<open>hex.DecodeString\<close>: two digits per byte; a character that is no digit is reported
  before an odd length. The bytes decoded before an error are dropped here: the caller
  reads nothing but \<open>err\<close> in that case.\<close>

fun hex_DecodeString :: "string \<Rightarrow> hex_error + byte list" where
  "hex_DecodeString [] = Inr []"
| "hex_DecodeString [p] =
     (case fromHexChar p of
        None \<Rightarrow> Inl (InvalidByteError p)
      | Some a \<Rightarrow> Inl ErrLength)"
| "hex_DecodeString (p # q # src) =
     (case fromHexChar p of
        None \<Rightarrow> Inl (InvalidByteError p)
      | Some a \<Rightarrow>
          (case fromHexChar q of
             None \<Rightarrow> Inl (InvalidByteError q)
           | Some b \<Rightarrow>
               (case hex_DecodeString src of
                  Inl e \<Rightarrow> Inl e
                | Inr dst \<Rightarrow> Inr ((push_bit 4 a OR b) # dst))))"

text \<open>\<open>hex.EncodeToString\<close>, which \<open>verifyGithubSignature\<close> prints the expected MAC with:
  two lower-case digits per byte.\<close>

definition hextable :: string where
  "hextable = ''0123456789abcdef''"

fun hex_EncodeToString :: "byte list \<Rightarrow> string" where
  "hex_EncodeToString [] = []"
| "hex_EncodeToString (v # src) =
     hextable ! unat (drop_bit 4 v) # hextable ! unat (v AND 0x0f) # hex_EncodeToString src"

text \<open>\<open>hmac.Equal\<close>: equality of the two byte strings (that it takes constant time is
  not modelled).\<close>

definition hmac_Equal :: "byte list \<Rightarrow> byte list \<Rightarrow> bool" where
  "hmac_Equal mac1 mac2 = (mac1 = mac2)"

text \<open>
  \<open>verifyGithubSignature256\<close>. Its first argument \<open>hmac_sha256 key message\<close> stands for
  \<open>hmac.New(sha256.New, key)\<close>, \<open>Write(message)\<close>, \<open>Sum(nil)\<close> of the standard library;
  the second is \<open>envVars.githubWebhookSecret\<close>. The slice expression
  \<open>signature[len(signaturePrefix):]\<close> panics when the signature is shorter than the
  prefix.
\<close>

definition signaturePrefix :: string where
  "signaturePrefix = ''sha256=''"

definition verifyGithubSignature256 ::
  "(string \<Rightarrow> byte list \<Rightarrow> byte list) \<Rightarrow> string \<Rightarrow> string \<Rightarrow> byte list \<Rightarrow> panic + bool" where
  "verifyGithubSignature256 hmac_sha256 githubWebhookSecret signature body =
     (let expectedMAC = hmac_sha256 githubWebhookSecret body in
      if length signature < length signaturePrefix then Inl SliceBoundsOutOfRange
      else
        (case hex_DecodeString (drop (length signaturePrefix) signature) of
           Inl err \<Rightarrow> Inr False
         | Inr signatureMAC \<Rightarrow> Inr (hmac_Equal signatureMAC expectedMAC)))"

section \<open>The parser: \<open>processGithubEvent\<close>\<close>

text \<open>The parser is modelled as \<open>packages/github-parser/src/cmd/main.go\<close> has it. (The
  repository holds an earlier copy of the file as well, which looks the numbers up with
  \<open>LookupMap[int]\<close>, reports one fixed message for a missing field and answers 500 where
  this one answers 200 with a warning.)\<close>

text \<open>\<open>pubsubRequest\<close>, its nested structs flattened: \<open>Message.MessageId\<close>,
  \<open>Message.PublishTime\<close>, \<open>Message.Data\<close>, \<open>Message.Attributes.Headers\<close> and
  \<open>Subscription\<close>. The type \<open>'t\<close> is \<open>time.Time\<close>.\<close>

record 't pubsubRequest =
  MessageId :: string
  PublishTime :: 't
  Data :: string
  Headers :: string
  Subscription :: string

record 't EventRecord =
  EventType :: string
  Id' :: string
  Metadata :: string
  TimeCreated :: 't
  Signature :: string
  MsgId :: string
  Source :: string

text \<open>The package variable \<open>eventTypes\<close>, a \<open>map[string]bool\<close>; indexing it with a key
  it does not hold yields \<open>false\<close>.\<close>

definition eventTypes :: "(string \<times> bool) list" where
  "eventTypes =
     [(''push'', True),
      (''pull_request'', True),
      (''pull_request_review'', True),
      (''pull_request_review_comment'', True),
      (''issues'', True),
      (''issue_comment'', True),
      (''check_run'', True),
      (''check_suite'', True),
      (''status'', True),
      (''deployment_status'', True),
      (''release'', True)]"

definition index_bool :: "(string \<times> bool) list \<Rightarrow> string \<Rightarrow> bool" where
  "index_bool m k = (case map_of m k of None \<Rightarrow> False | Some b \<Rightarrow> b)"

text \<open>\<open>headers[k][0]\<close> on a \<open>map[string][]string\<close>: a key the map does not hold yields
  the nil slice, and index 0 of an empty slice panics.\<close>

definition index0 :: "(string \<rightharpoonup> string list) \<Rightarrow> string \<Rightarrow> panic + string" where
  "index0 headers k =
     (case headers k of
        None \<Rightarrow> Inl IndexOutOfRange
      | Some [] \<Rightarrow> Inl IndexOutOfRange
      | Some (v # vs) \<Rightarrow> Inr v)"

text \<open>\<open>%d\<close> of an \<open>int\<close>: decimal digits, with a minus sign for a negative number.\<close>

fun digits :: "nat \<Rightarrow> string" where
  "digits n =
     (if n < 10 then [''0123456789'' ! n]
      else digits (n div 10) @ [''0123456789'' ! (n mod 10)])"

declare digits.simps [simp del]

definition Sprintf_d :: "int \<Rightarrow> string" where
  "Sprintf_d i = (if i < 0 then ''-'' @ digits (nat (- i)) else digits (nat i))"

text \<open>The conversion \<open>int(number)\<close> of a \<open>float64\<close>: the fraction is discarded
  (truncation toward zero). A value outside the range of \<open>int\<close> converts to an
  implementation-dependent result; the one of amd64 is taken.\<close>

definition int_of_float64 :: "rat \<Rightarrow> int" where
  "int_of_float64 q =
     (let t = (if 0 \<le> q then \<lfloor>q\<rfloor> else \<lceil>q\<rceil>) in
      if - (2 ^ 63) \<le> t \<and> t < 2 ^ 63 then t else - (2 ^ 63))"

text \<open>The variables the \<open>switch\<close> of \<open>processGithubEvent\<close> assigns, with the zero values
  of their \<open>var\<close> declaration. A nil \<open>error\<close> is \<open>None\<close>.\<close>

record vars =
  maybeTimeCreated :: string
  id' :: string
  tOk :: bool
  iOk :: bool
  tErr :: "lookup_error option"
  iErr :: "lookup_error option"

definition vars0 :: vars where
  "vars0 = \<lparr>maybeTimeCreated = [], id' = [], tOk = False, iOk = False, tErr = None, iErr = None\<rparr>"

text \<open>The cases of the \<open>switch eventType\<close> statement, in the order of the source.\<close>

definition case_push :: "(string \<times> gval) list \<Rightarrow> vars" where
  "case_push metadata =
     (let (t, tok) = LookupMap_string metadata [''head_commit'', ''timestamp''];
          (i, iok) = LookupMap_string metadata [''head_commit'', ''id'']
      in vars0\<lparr>maybeTimeCreated := t, tOk := tok, id' := i, iOk := iok\<rparr>)"

definition case_pull_request :: "(string \<times> gval) list \<Rightarrow> vars" where
  "case_pull_request metadata =
     (let (t, tok) = LookupMap_string metadata [''pull_request'', ''updated_at''];
          (repoName, rOk) = LookupMap_string metadata [''repository'', ''name''];
          (number, nOk) = LookupMap_float64 metadata [''number''];
          v = vars0\<lparr>maybeTimeCreated := t, tOk := tok\<rparr>
      in if rOk \<and> nOk
         then v\<lparr>id' := repoName @ ''/'' @ Sprintf_d (int_of_float64 number), iOk := True\<rparr>
         else v)"

definition case_pull_request_review :: "(string \<times> gval) list \<Rightarrow> vars" where
  "case_pull_request_review metadata =
     (let v = (case LookupMapE_string metadata [''review'', ''submitted_at''] of
                 Inl e \<Rightarrow> vars0\<lparr>maybeTimeCreated := [], tErr := Some e, tOk := False\<rparr>
               | Inr t \<Rightarrow> vars0\<lparr>maybeTimeCreated := t, tErr := None, tOk := True\<rparr>)
      in case LookupMapE_float64 metadata [''review'', ''id''] of
           Inr idNum \<Rightarrow> v\<lparr>id' := Sprintf_d (int_of_float64 idNum), iOk := True\<rparr>
         | Inl nOk \<Rightarrow> v\<lparr>iErr := Some nOk\<rparr>)"

definition case_pull_request_review_comment :: "(string \<times> gval) list \<Rightarrow> vars" where
  "case_pull_request_review_comment metadata =
     (let (t, tok) = LookupMap_string metadata [''comment'', ''updated_at''];
          (idNum, nOk) = LookupMap_float64 metadata [''review'', ''id''];
          v = vars0\<lparr>maybeTimeCreated := t, tOk := tok\<rparr>
      in if nOk then v\<lparr>id' := Sprintf_d (int_of_float64 idNum), iOk := True\<rparr> else v)"

definition case_issues :: "(string \<times> gval) list \<Rightarrow> vars" where
  "case_issues metadata =
     (let (t, tok) = LookupMap_string metadata [''issue'', ''updated_at''];
          (repoName, rOk) = LookupMap_string metadata [''repository'', ''name''];
          (number, nOk) = LookupMap_float64 metadata [''issue'', ''number''];
          v = vars0\<lparr>maybeTimeCreated := t, tOk := tok\<rparr>
      in if rOk \<and> nOk
         then v\<lparr>id' := repoName @ ''/'' @ Sprintf_d (int_of_float64 number), iOk := True\<rparr>
         else v)"

definition case_issue_comment :: "(string \<times> gval) list \<Rightarrow> vars" where
  "case_issue_comment metadata =
     (let (t, tok) = LookupMap_string metadata [''comment'', ''updated_at''];
          (i, iok) = LookupMap_string metadata [''comment'', ''id'']
      in vars0\<lparr>maybeTimeCreated := t, tOk := tok, id' := i, iOk := iok\<rparr>)"

text \<open>The three cases with a fallback chain for the timestamp: the second path is
  looked up only when the first lookup fails.\<close>

definition first_of :: "(string \<times> gval) list \<Rightarrow> string list \<Rightarrow> string list \<Rightarrow> vars" where
  "first_of metadata keys1 keys2 =
     (let (first, fOk) = LookupMap_string metadata keys1
      in if fOk then vars0\<lparr>maybeTimeCreated := first, tOk := True\<rparr>
         else
           (let (second, sOk) = LookupMap_string metadata keys2
            in if sOk then vars0\<lparr>maybeTimeCreated := second, tOk := True\<rparr> else vars0))"

definition case_check_run :: "(string \<times> gval) list \<Rightarrow> vars" where
  "case_check_run metadata =
     (let v = first_of metadata [''check_run'', ''completed_at''] [''check_run'', ''started_at''];
          (i, iok) = LookupMap_string metadata [''check_run'', ''id'']
      in v\<lparr>id' := i, iOk := iok\<rparr>)"

definition case_check_suite :: "(string \<times> gval) list \<Rightarrow> vars" where
  "case_check_suite metadata =
     (let v = first_of metadata [''check_suite'', ''updated_at''] [''check_suite'', ''created_at''];
          (i, iok) = LookupMap_string metadata [''check_suite'', ''id'']
      in v\<lparr>id' := i, iOk := iok\<rparr>)"

definition case_deployment_status :: "(string \<times> gval) list \<Rightarrow> vars" where
  "case_deployment_status metadata =
     (let (t, tok) = LookupMap_string metadata [''deployment_status'', ''updated_at''];
          (i, iok) = LookupMap_string metadata [''deployment_status'', ''id'']
      in vars0\<lparr>maybeTimeCreated := t, tOk := tok, id' := i, iOk := iok\<rparr>)"

definition case_status :: "(string \<times> gval) list \<Rightarrow> vars" where
  "case_status metadata =
     (let (t, tok) = LookupMap_string metadata [''updated_at''];
          (i, iok) = LookupMap_string metadata [''id'']
      in vars0\<lparr>maybeTimeCreated := t, tOk := tok, id' := i, iOk := iok\<rparr>)"

definition case_release :: "(string \<times> gval) list \<Rightarrow> vars" where
  "case_release metadata =
     (let v = first_of metadata [''release'', ''published_at''] [''release'', ''created_at''];
          (i, iok) = LookupMap_string metadata [''release'', ''id'']
      in v\<lparr>id' := i, iOk := iok\<rparr>)"

text \<open>The \<open>switch\<close> itself; \<open>None\<close> is its \<open>default\<close> branch.\<close>

definition switch_eventType :: "string \<Rightarrow> (string \<times> gval) list \<Rightarrow> vars option" where
  "switch_eventType eventType metadata =
     (if eventType = ''push'' then Some (case_push metadata)
      else if eventType = ''pull_request'' then Some (case_pull_request metadata)
      else if eventType = ''pull_request_review'' then Some (case_pull_request_review metadata)
      else if eventType = ''pull_request_review_comment''
        then Some (case_pull_request_review_comment metadata)
      else if eventType = ''issues'' then Some (case_issues metadata)
      else if eventType = ''issue_comment'' then Some (case_issue_comment metadata)
      else if eventType = ''check_run'' then Some (case_check_run metadata)
      else if eventType = ''check_suite'' then Some (case_check_suite metadata)
      else if eventType = ''deployment_status'' then Some (case_deployment_status metadata)
      else if eventType = ''status'' then Some (case_status metadata)
      else if eventType = ''release'' then Some (case_release metadata)
      else None)"

text \<open>The errors \<open>processGithubEvent\<close> returns: the results of its \<open>fmt.Errorf\<close> calls,
  an error of \<open>LookupMapE\<close> passed on, and the result of \<open>errors.Join\<close>.
  \<open>CouldNotParse\<close> holds the message of the error of \<open>time.Parse\<close>.\<close>

datatype gerror =
    NotSupported string
  | CouldNotFindTimeCreated
  | CouldNotFindId
  | LookupError lookup_error
  | CouldNotParse string
  | Joined "gerror list"

text \<open>\<open>errors.Join\<close>: the result wraps the given errors, and is nil when there is none.
  Its message is the messages of the wrapped errors, one per line.\<close>

definition errors_Join :: "gerror list \<Rightarrow> gerror option" where
  "errors_Join errs = (if errs = [] then None else Some (Joined errs))"

fun Error_message :: "(gval \<Rightarrow> string) \<Rightarrow> gerror \<Rightarrow> string" where
  "Error_message fmtV (NotSupported eventType) = ''event type '' @ eventType @ '' is not supported''"
| "Error_message fmtV CouldNotFindTimeCreated = ''could not find time_created''"
| "Error_message fmtV CouldNotFindId = ''could not find id''"
| "Error_message fmtV (LookupError e) = lookup_error_message fmtV e"
| "Error_message fmtV (CouldNotParse err) = ''could not parse time_created: '' @ err"
| "Error_message fmtV (Joined errs) = Join (map (Error_message fmtV) errs) [CHR 0x0A]"

text \<open>The slice \<open>errs\<close> built under \<open>if !tOk || !iOk\<close>.\<close>

definition errs_of :: "vars \<Rightarrow> gerror list" where
  "errs_of v =
     (if \<not> tOk v
      then [case tErr v of None \<Rightarrow> CouldNotFindTimeCreated | Some e \<Rightarrow> LookupError e]
      else [])
     @ (if \<not> iOk v
        then [case iErr v of None \<Rightarrow> CouldNotFindId | Some e \<Rightarrow> LookupError e]
        else [])"

text \<open>The result \<open>(*EventRecord, error)\<close>: \<open>(nil, nil)\<close> is \<open>Skip\<close>, \<open>(nil, err)\<close> is
  \<open>Error err\<close> and \<open>(&EventRecord{...}, nil)\<close> is \<open>Event\<close>.\<close>

datatype 't outcome = Skip | Error gerror | Event "'t EventRecord"

text \<open>
  \<open>processGithubEvent\<close>. The package variable \<open>eventTypes\<close> it reads is its first
  argument; \<open>time_Parse\<close> stands for \<open>time.Parse(time.RFC3339, _)\<close> of the standard library
  (\<open>Inl\<close> holds the message of its error). \<open>rawMetadata\<close> is the byte string that
  \<open>string(rawMetadata)\<close> copies. The calls of the logger are left out.
\<close>

definition processGithubEvent ::
  "(string \<times> bool) list \<Rightarrow> (string \<Rightarrow> string + 't) \<Rightarrow> 't pubsubRequest \<Rightarrow>
   (string \<rightharpoonup> string list) \<Rightarrow> (string \<times> gval) list \<Rightarrow> string \<Rightarrow> panic + 't outcome" where
  "processGithubEvent types time_Parse reqMessage headers metadata rawMetadata =
     (case index0 headers ''X-Github-Event'' of
        Inl p \<Rightarrow> Inl p
      | Inr eventType \<Rightarrow>
          if \<not> index_bool types eventType then Inr Skip
          else
            (case index0 headers ''X-Hub-Signature-256'' of
               Inl p \<Rightarrow> Inl p
             | Inr signature \<Rightarrow>
                 (let source = (if headers ''Mock'' \<noteq> None then ''github_mock'' else ''github'')
                  in case switch_eventType eventType metadata of
                       None \<Rightarrow> Inr (Error (NotSupported eventType))
                     | Some v \<Rightarrow>
                         if \<not> tOk v \<or> \<not> iOk v then
                           (case errors_Join (errs_of v) of
                              None \<Rightarrow> Inr Skip
                            | Some err \<Rightarrow> Inr (Error err))
                         else
                           (case time_Parse (maybeTimeCreated v) of
                              Inl err \<Rightarrow> Inr (Error (CouldNotParse err))
                            | Inr timeCreated \<Rightarrow>
                                Inr (Event
                                  \<lparr>EventType = eventType,
                                   Id' = id' v,
                                   Metadata = rawMetadata,
                                   TimeCreated = timeCreated,
                                   Signature = signature,
                                   MsgId = MessageId reqMessage,
                                   Source = source\<rparr>)))))"

section \<open>The consumer endpoint: \<open>indexPost\<close> of the parser\<close>

text \<open>
  What \<open>indexPost\<close> calls outside the repository, for one request: the outcome of
  \<open>io.ReadAll(r.Body)\<close>; \<open>json.Unmarshal\<close> at the three types it is used at;
  \<open>base64.StdEncoding.DecodeString\<close>; \<open>json.Marshal\<close> of the headers and of the payload;
  \<open>time.Parse\<close>; and the row insertion of the analytics sink behind
  \<open>insertIntoBigQuery\<close> (\<open>None\<close> is a nil error). \<open>Inl\<close> holds an error.
\<close>

record 't externals =
  ReadAll :: "string + string"
  Unmarshal_msg :: "string \<Rightarrow> string + 't pubsubRequest"
  Unmarshal_attrs :: "string \<Rightarrow> string + (string \<rightharpoonup> string list)"
  DecodeString :: "string \<Rightarrow> string + string"
  Unmarshal_metadata :: "string \<Rightarrow> string + (string \<times> gval) list"
  Marshal_attrs :: "(string \<rightharpoonup> string list) \<Rightarrow> string + string"
  Marshal_metadata :: "(string \<times> gval) list \<Rightarrow> string + string"
  Parse :: "string \<Rightarrow> string + 't"
  insertIntoBigQuery :: "'t EventRecord \<Rightarrow> string option"

definition StatusOK :: nat where
  "StatusOK = 200"

definition StatusInternalServerError :: nat where
  "StatusInternalServerError = 500"

text \<open>\<open>indexPost\<close>: the status it writes with \<open>w.WriteHeader\<close>, or the panic that
  \<open>processGithubEvent\<close> raises (no status is written then). The calls of the logger are
  left out.\<close>

definition indexPost :: "'t externals \<Rightarrow> panic + nat" where
  "indexPost x =
     (case ReadAll x of
        Inl err \<Rightarrow> Inr StatusInternalServerError
      | Inr body \<Rightarrow>
     (case Unmarshal_msg x body of
        Inl err \<Rightarrow> Inr StatusInternalServerError
      | Inr msg \<Rightarrow>
     (case Unmarshal_attrs x (Headers msg) of
        Inl err \<Rightarrow> Inr StatusInternalServerError
      | Inr attrs \<Rightarrow>
     (case DecodeString x (Data msg) of
        Inl err \<Rightarrow> Inr StatusInternalServerError
      | Inr data \<Rightarrow>
     (case Unmarshal_metadata x data of
        Inl err \<Rightarrow> Inr StatusInternalServerError
      | Inr metadata \<Rightarrow>
     (case Marshal_attrs x attrs of
        Inl err \<Rightarrow> Inr StatusInternalServerError
      | Inr attrsStr \<Rightarrow>
     (case Marshal_metadata x metadata of
        Inl err \<Rightarrow> Inr StatusInternalServerError
      | Inr metadataStr \<Rightarrow>
     (case processGithubEvent eventTypes (Parse x) msg attrs metadata data of
        Inl p \<Rightarrow> Inl p
      | Inr (Error err) \<Rightarrow> Inr StatusOK
      | Inr Skip \<Rightarrow> Inr StatusOK
      | Inr (Event event) \<Rightarrow>
          (case insertIntoBigQuery x event of
             Some err \<Rightarrow> Inr StatusOK
           | None \<Rightarrow> Inr StatusOK)))))))))"

section \<open>The specification's terms\<close>

text \<open>The recognized event types, as the specification lists them.\<close>

definition recognized :: "string list" where
  "recognized =
     [''push'', ''pull_request'', ''pull_request_review'', ''pull_request_review_comment'',
      ''issues'', ''issue_comment'', ''check_run'', ''check_suite'', ''status'',
      ''deployment_status'', ''release'']"

text \<open>
  The transport and decoding steps of \<open>indexPost\<close>, in the specification's words: the
  body is read, the envelope, its headers attribute, its base64 data and the payload are
  decoded, and headers and payload are serialised for the log. \<open>decoded x\<close> is what
  they yield when all of them succeed.
\<close>

definition decoded ::
  "'t externals \<Rightarrow>
   ('t pubsubRequest \<times> (string \<rightharpoonup> string list) \<times> (string \<times> gval) list \<times> string) option" where
  "decoded x =
     (case ReadAll x of
        Inl err \<Rightarrow> None
      | Inr body \<Rightarrow>
          (case Unmarshal_msg x body of
             Inl err \<Rightarrow> None
           | Inr msg \<Rightarrow>
               (case (Unmarshal_attrs x (Headers msg), DecodeString x (Data msg)) of
                  (Inr attrs, Inr data) \<Rightarrow>
                    (case Unmarshal_metadata x data of
                       Inl err \<Rightarrow> None
                     | Inr metadata \<Rightarrow>
                         (case (Marshal_attrs x attrs, Marshal_metadata x metadata) of
                            (Inr attrsStr, Inr metadataStr) \<Rightarrow> Some (msg, attrs, metadata, data)
                          | _ \<Rightarrow> None))
                | _ \<Rightarrow> None)))"

section \<open>Concrete inputs\<close>

text \<open>A payload whose key \<open>number\<close> holds the JSON number 1.5.\<close>

definition number_m :: "(string \<times> gval) list" where
  "number_m = [(''number'', VFloat64 (3 / 2))]"

text \<open>A stand-in for the MAC function and for \<open>time.Parse\<close>, and a request message, to
  run the functions on.\<close>

definition mac0 :: "string \<Rightarrow> byte list \<Rightarrow> byte list" where
  "mac0 key message = [0xde, 0xad, 0xbe, 0xef]"

definition parse0 :: "string \<Rightarrow> string + string" where
  "parse0 s = (if s = [] then Inl ''cannot parse'' else Inr s)"

definition msg0 :: "string pubsubRequest" where
  "msg0 = \<lparr>MessageId = ''m1'', PublishTime = [], Data = ''e30='', Headers = ''{}'',
            Subscription = []\<rparr>"

text \<open>Payloads of a \<open>check_run\<close> event: one with both timestamps, and one whose
  \<open>completed_at\<close> is \<open>null\<close>, as it is while the run is in progress.\<close>

definition check_run_both :: "(string \<times> gval) list" where
  "check_run_both =
     [(''check_run'',
       VMap [(''id'', VString ''cr-1''),
             (''started_at'', VString ''2024-01-02T03:04:05Z''),
             (''completed_at'', VString ''2024-01-02T03:09:00Z'')])]"

definition check_run_started :: "(string \<times> gval) list" where
  "check_run_started =
     [(''check_run'',
       VMap [(''id'', VString ''cr-1''),
             (''started_at'', VString ''2024-01-02T03:04:05Z''),
             (''completed_at'', VNil)])]"

definition github_headers :: "string \<Rightarrow> string \<rightharpoonup> string list" where
  "github_headers eventType =
     [''X-Github-Event'' \<mapsto> [eventType], ''X-Hub-Signature-256'' \<mapsto> [''sha256=00'']]"

text \<open>The payload of a \<open>pull_request\<close> event, decoded: the number 42 is a \<open>float64\<close>.\<close>

definition pull_request_42 :: "(string \<times> gval) list" where
  "pull_request_42 =
     [(''repository'', VMap [(''name'', VString ''acme/widgets'')]),
      (''number'', VFloat64 42),
      (''pull_request'', VMap [(''updated_at'', VString ''2024-01-02T03:04:05Z'')])]"

text \<open>The payload of a \<open>push\<close> event.\<close>

definition push_1 :: "(string \<times> gval) list" where
  "push_1 =
     [(''head_commit'',
       VMap [(''id'', VString ''8f3c''), (''timestamp'', VString ''2024-01-02T03:04:05Z'')])]"

text \<open>A request to the consumer endpoint that decodes to a \<open>push\<close> event, with a sink
  that refuses the row; and the same request with a body that cannot be read.\<close>

definition sink_down :: "string externals" where
  "sink_down =
     \<lparr>ReadAll = Inr ''{}'',
      Unmarshal_msg = (\<lambda>body. Inr msg0),
      Unmarshal_attrs = (\<lambda>s. Inr (github_headers ''push'')),
      DecodeString = (\<lambda>s. Inr ''{}''),
      Unmarshal_metadata = (\<lambda>data. Inr push_1),
      Marshal_attrs = (\<lambda>attrs. Inr []),
      Marshal_metadata = (\<lambda>metadata. Inr []),
      Parse = parse0,
      insertIntoBigQuery = (\<lambda>event. Some ''sink unavailable'')\<rparr>"

definition body_unreadable :: "string externals" where
  "body_unreadable = sink_down\<lparr>ReadAll := Inl ''unexpected EOF''\<rparr>"

section \<open>The navigators meet the navigation contract\<close>

inductive_simps resolves_Nil_iff: "resolves v [] r"
inductive_simps resolves_Cons_iff: "resolves v (key # keys) r"

lemma LookupMap_loop_resolves:
  "LookupMap_loop v keys = Some r \<longleftrightarrow> resolves v keys r"
proof (induction keys arbitrary: v)
  case Nil
  show ?case by (auto simp: resolves_Nil_iff)
next
  case (Cons key keys)
  show ?case
    by (cases v) (auto simp: resolves_Cons_iff Cons.IH split: option.splits)
qed

lemma LookupMapE_loop_resolves:
  "LookupMapE_loop v w keys = Inr r \<longleftrightarrow> resolves v keys r"
proof (induction keys arbitrary: v w)
  case Nil
  show ?case by (auto simp: resolves_Nil_iff)
next
  case (Cons key keys)
  show ?case
    by (cases v) (auto simp: resolves_Cons_iff Cons.IH split: option.splits)
qed

lemma LookupMap_loop_append:
  "resolves v xs r \<Longrightarrow> LookupMap_loop v (xs @ ys) = LookupMap_loop r ys"
  by (induction rule: resolves.induct) auto

lemma LookupMapE_loop_append:
  "resolves v xs r \<Longrightarrow> LookupMapE_loop v w (xs @ ys) = LookupMapE_loop r (w @ xs) ys"
  by (induction arbitrary: w rule: resolves.induct) auto

lemma LookupMap_loop_missing:
  assumes "i < length keys" "resolves v (take i keys) (VMap mi)" "map_of mi (keys ! i) = None"
  shows "LookupMap_loop v keys = None"
proof -
  have "LookupMap_loop v (take i keys @ (keys ! i) # drop (Suc i) keys) = None"
    using assms(2,3) by (simp add: LookupMap_loop_append)
  moreover have "take i keys @ (keys ! i) # drop (Suc i) keys = keys"
    using assms(1) by (rule id_take_nth_drop [symmetric])
  ultimately show ?thesis
    by (rule subst [where P = "\<lambda>ks. LookupMap_loop v ks = None", rotated])
qed

lemma LookupMapE_loop_missing:
  assumes "i < length keys" "resolves v (take i keys) (VMap mi)" "map_of mi (keys ! i) = None"
  shows "LookupMapE_loop v w keys = Inl (NotFound (w @ take i keys @ [keys ! i]) mi)"
proof -
  have "LookupMapE_loop v w (take i keys @ (keys ! i) # drop (Suc i) keys)
          = Inl (NotFound (w @ take i keys @ [keys ! i]) mi)"
    using assms(2,3) by (simp add: LookupMapE_loop_append)
  moreover have "take i keys @ (keys ! i) # drop (Suc i) keys = keys"
    using assms(1) by (rule id_take_nth_drop [symmetric])
  ultimately show ?thesis
    by (rule subst [where P = "\<lambda>ks. LookupMapE_loop v w ks
          = Inl (NotFound (w @ take i keys @ [keys ! i]) mi)", rotated])
qed

lemma Join_snoc:
  "Join (xs @ [k]) sep = (if xs = [] then k else Join xs sep @ sep @ k)"
  by (induction xs sep rule: Join.induct) auto

lemma LookupMap_found_iff:
  "LookupMap T m keys = (v, True) \<longleftrightarrow> resolves (VMap m) keys v \<and> assertT T v"
  by (auto simp: LookupMap_def LookupMap_loop_resolves [symmetric] split: option.splits)

lemma LookupMapE_found_iff:
  "LookupMapE T m keys = Inr v \<longleftrightarrow> resolves (VMap m) keys v \<and> assertT T v"
proof (cases "LookupMapE_loop (VMap m) [] keys")
  case (Inl e)
  moreover from Inl have "\<not> resolves (VMap m) keys v"
    using LookupMapE_loop_resolves [of "VMap m" "[]" keys v] by simp
  ultimately show ?thesis by (simp add: LookupMapE_def)
next
  case (Inr r)
  then have "resolves (VMap m) keys v \<longleftrightarrow> r = v"
    using LookupMapE_loop_resolves [of "VMap m" "[]" keys v] by auto
  with Inr show ?thesis by (auto simp: LookupMapE_def)
qed

lemma LookupMap_missing:
  assumes "i < length keys" "resolves (VMap m) (take i keys) (VMap mi)" "map_of mi (keys ! i) = None"
  shows "LookupMap T m keys = (zero T, False)"
  by (simp add: LookupMap_def LookupMap_loop_missing [OF assms])

lemma LookupMapE_missing:
  assumes "i < length keys" "resolves (VMap m) (take i keys) (VMap mi)" "map_of mi (keys ! i) = None"
  shows "LookupMapE T m keys = Inl (NotFound (take i keys @ [keys ! i]) mi)"
  using LookupMapE_loop_missing [OF assms, of "[]"] by (simp add: LookupMapE_def)

lemma NotFound_message:
  "i < length keys \<Longrightarrow>
   lookup_error_message fmtV (NotFound (take i keys @ [keys ! i]) mi) =
     ''key '' @ (if i = 0 then [] else Join (take i keys) ''.'' @ ''.'') @ keys ! i
       @ '' not found in '' @ fmtV (VMap mi)"
  by (auto simp: Join_snoc)

lemma LookupMap_mismatch:
  assumes "resolves (VMap m) keys v" "\<not> assertT T v"
  shows "LookupMap T m keys = (zero T, False)"
proof -
  have "LookupMap_loop (VMap m) keys = Some v"
    using assms(1) by (simp add: LookupMap_loop_resolves)
  then show ?thesis using assms(2) by (simp add: LookupMap_def)
qed

lemma LookupMapE_mismatch:
  assumes "resolves (VMap m) keys v" "\<not> assertT T v"
  shows "LookupMapE T m keys = Inl (NotOfType v T)"
proof -
  have "LookupMapE_loop (VMap m) [] keys = Inr v"
    using assms(1) by (simp add: LookupMapE_loop_resolves)
  then show ?thesis using assms(2) by (simp add: LookupMapE_def)
qed

lemma resolves_a_lookupNested:
  "resolves (VMap lookupNested_m) [''a''] (VMap [(''b'', VMap [(''c'', VString ''d'')])])"
  by (simp add: LookupMap_loop_resolves [symmetric] lookupNested_m_def)

section \<open>Hexadecimal digits: decoding undoes encoding\<close>
lemma fromHexChar_hextable:
  assumes "n < 16"
  shows "fromHexChar (hextable ! n) = Some (of_nat n)"
proof -
  from assms have "n \<in> {0, 1, 2, 3, 4, 5, 6, 7, 8, 9, 10, 11, 12, 13, 14, 15}"
    by (simp only: insert_iff empty_iff) arith
  then show ?thesis
    by (auto simp: hextable_def fromHexChar_def)
qed

lemma low_nibble_take_bit: "(v :: byte) AND 0x0f = take_bit 4 v"
proof -
  have "(0x0f :: byte) = mask 4" by (simp add: mask_eq_exp_minus_1)
  then show ?thesis by (simp only: take_bit_eq_mask)
qed

lemma unat_high_nibble: "unat (drop_bit 4 (v :: byte)) < 16"
proof -
  have "unat v < 2 ^ 8" using unsigned_less [of v, where ?'a = nat] by simp
  then have *: "unat v div 2 ^ 4 < 16" by simp
  have "unat (drop_bit 4 v) = drop_bit 4 (unat v)" by (rule unat_drop_bit_eq)
  also have "\<dots> = unat v div 2 ^ 4" by (rule drop_bit_eq_div)
  finally show ?thesis using * by simp
qed

lemma unat_low_nibble: "unat ((v :: byte) AND 0x0f) < 16"
proof -
  have "take_bit 4 (unat v) < 2 ^ 4" by (rule take_bit_nat_less_exp)
  then show ?thesis by (simp add: low_nibble_take_bit unsigned_take_bit_eq)
qed

lemma nibbles_byte: "push_bit 4 (drop_bit 4 v) OR (v AND 0x0f) = (v :: byte)"
  unfolding low_nibble_take_bit
  by (rule bit_word_eqI) (auto simp: bit_simps)

lemma hex_roundtrip_byte:
  "fromHexChar (hextable ! unat (drop_bit 4 (v :: byte))) = Some (drop_bit 4 v)"
  "fromHexChar (hextable ! unat ((v :: byte) AND 0x0f)) = Some (v AND 0x0f)"
  by (simp_all only: fromHexChar_hextable [OF unat_high_nibble] fromHexChar_hextable [OF unat_low_nibble] of_nat_unat ucast_id)

lemma hex_DecodeString_EncodeToString:
  "hex_DecodeString (hex_EncodeToString src) = Inr src"
  by (induction src) (simp_all add: hex_roundtrip_byte nibbles_byte del: )
text \<open>
  C3. On the tree \<open>{"a":{"b":{"c":"d"}}}\<close> and the path \<open>a, b, c\<close>, \<open>LookupMap[string]\<close>
  returns \<open>("d", true)\<close>. When the keys before position \<open>i\<close> resolve to a mapping that
  does not hold key \<open>i\<close>, \<open>LookupMap\<close> returns the zero value and \<open>false\<close>, and \<open>LookupMapE\<close>
  returns the error "key ... not found in ..." whose joined path is the keys walked so far
  and ends with the missing key. Either variant reports success only with the value that
  the whole path resolves to, of the requested type: no default stands in for it.
\<close>

theorem LookupMap_contract:
  "LookupMap TString lookupNested_m [''a'', ''b'', ''c''] = (VString ''d'', True)
   \<and> (i < length keys \<and> resolves (VMap m) (take i keys) (VMap mi) \<and> map_of mi (keys ! i) = None
        \<longrightarrow> LookupMap T m keys = (zero T, False)
          \<and> LookupMapE T m keys = Inl (NotFound (take i keys @ [keys ! i]) mi)
          \<and> lookup_error_message fmtV (NotFound (take i keys @ [keys ! i]) mi) =
               ''key '' @ (if i = 0 then [] else Join (take i keys) ''.'' @ ''.'') @ keys ! i
                 @ '' not found in '' @ fmtV (VMap mi))
   \<and> (LookupMap T m keys = (v, True) \<longleftrightarrow> resolves (VMap m) keys v \<and> assertT T v)
   \<and> (LookupMapE T m keys = Inr v \<longleftrightarrow> resolves (VMap m) keys v \<and> assertT T v)"
proof (intro conjI impI)
  show "LookupMap TString lookupNested_m [''a'', ''b'', ''c''] = (VString ''d'', True)"
    by (simp add: LookupMap_def lookupNested_m_def)
next
  assume h: "i < length keys \<and> resolves (VMap m) (take i keys) (VMap mi) \<and> map_of mi (keys ! i) = None"
  then show "LookupMap T m keys = (zero T, False)"
    by (blast intro: LookupMap_missing)
  from h show "LookupMapE T m keys = Inl (NotFound (take i keys @ [keys ! i]) mi)"
    by (blast intro: LookupMapE_missing)
  from h show "lookup_error_message fmtV (NotFound (take i keys @ [keys ! i]) mi) =
               ''key '' @ (if i = 0 then [] else Join (take i keys) ''.'' @ ''.'') @ keys ! i
                 @ '' not found in '' @ fmtV (VMap mi)"
    by (blast intro: NotFound_message)
next
  show "LookupMap T m keys = (v, True) \<longleftrightarrow> resolves (VMap m) keys v \<and> assertT T v"
    by (rule LookupMap_found_iff)
next
  show "LookupMapE T m keys = Inr v \<longleftrightarrow> resolves (VMap m) keys v \<and> assertT T v"
    by (rule LookupMapE_found_iff)
qed

theorem LookupMap_contract_witness:
  "LookupMap TString lookupNested_m [''a'', ''missed'', ''c''] = (VString [], False)
   \<and> LookupMapE TString lookupNested_m [''a'', ''missed'', ''c'']
        = Inl (NotFound [''a'', ''missed''] [(''b'', VMap [(''c'', VString ''d'')])])
   \<and> lookup_error_message (\<lambda>v. ''map[b:map[c:d]]'')
        (NotFound [''a'', ''missed''] [(''b'', VMap [(''c'', VString ''d'')])])
        = ''key a.missed not found in map[b:map[c:d]]''"
  using LookupMap_contract [of 1 "[''a'', ''missed'', ''c'']" lookupNested_m
      "[(''b'', VMap [(''c'', VString ''d'')])]" TString "\<lambda>v. ''map[b:map[c:d]]''" "VString []"]
    resolves_a_lookupNested
  by simp

text \<open>
  C4, as stated, fails for the silent variant: asked for an \<open>int\<close> at a key that holds
  the float 1.5, \<open>LookupMap\<close> returns the very pair it returns for a key that is absent.
\<close>

theorem LookupMap_mismatch_counterexample:
  "resolves (VMap number_m) [''number''] (VFloat64 (3 / 2))
   \<and> \<not> assertT TInt (VFloat64 (3 / 2))
   \<and> map_of number_m ''missing'' = None
   \<and> LookupMap TInt number_m [''number''] = LookupMap TInt number_m [''missing'']"
  by (simp add: number_m_def LookupMap_def LookupMap_loop_resolves [symmetric])

text \<open>
  C4, amended. When every key resolves and the final value is not of the requested type,
  \<open>LookupMapE\<close> returns the error "value ... is not of type ...". It differs from the
  error \<open>LookupMapE\<close> returns when a key is absent ("key ... not found in ..."), and so
  do the two messages, whatever \<open>%v\<close> prints. \<open>LookupMap\<close> returns the zero value and
  \<open>false\<close> in both cases.
\<close>

theorem LookupMapE_mismatch_distinct:
  assumes "resolves (VMap m) keys v" and "\<not> assertT T v"
    and "i < length keys'" and "resolves (VMap m') (take i keys') (VMap mi)"
    and "map_of mi (keys' ! i) = None"
  shows "LookupMapE T m keys = Inl (NotOfType v T)
    \<and> LookupMapE T' m' keys' = Inl (NotFound (take i keys' @ [keys' ! i]) mi)
    \<and> LookupMapE T m keys \<noteq> LookupMapE T' m' keys'
    \<and> lookup_error_message fmtV (NotOfType v T)
        \<noteq> lookup_error_message fmtV (NotFound (take i keys' @ [keys' ! i]) mi)
    \<and> LookupMap T m keys = (zero T, False)
    \<and> LookupMap T m' keys' = (zero T, False)"
proof -
  have a: "LookupMapE T m keys = Inl (NotOfType v T)"
    using assms(1,2) by (rule LookupMapE_mismatch)
  have b: "LookupMapE T' m' keys' = Inl (NotFound (take i keys' @ [keys' ! i]) mi)"
    using assms(3,4,5) by (rule LookupMapE_missing)
  have c: "lookup_error_message fmtV (NotOfType v T)
        \<noteq> lookup_error_message fmtV (NotFound (take i keys' @ [keys' ! i]) mi)"
    by simp
  have d: "LookupMap T m keys = (zero T, False)"
    using assms(1,2) by (rule LookupMap_mismatch)
  have e: "LookupMap T m' keys' = (zero T, False)"
    using assms(3,4,5) by (rule LookupMap_missing)
  from a b c d e show ?thesis by simp
qed

lemma resolves_number_m: "resolves (VMap number_m) [''number''] (VFloat64 (3 / 2))"
  by (simp add: LookupMap_loop_resolves [symmetric] number_m_def)

lemma resolves_number_m_root: "resolves (VMap number_m) (take 0 [''missing'']) (VMap number_m)"
  by (simp add: resolves_Nil_iff)

theorem LookupMapE_mismatch_distinct_witness:
  "LookupMapE TInt number_m [''number''] = Inl (NotOfType (VFloat64 (3 / 2)) TInt)
   \<and> LookupMapE TInt number_m [''missing''] = Inl (NotFound [''missing''] number_m)
   \<and> LookupMapE TInt number_m [''number''] \<noteq> LookupMapE TInt number_m [''missing'']
   \<and> LookupMap TInt number_m [''number''] = (VInt 0, False)
   \<and> LookupMap TInt number_m [''missing''] = (VInt 0, False)"
  using LookupMapE_mismatch_distinct [OF resolves_number_m _ _ resolves_number_m_root,
      of TInt TInt "\<lambda>v. []"]
  by (simp add: number_m_def)

section \<open>The signature verifier\<close>

text \<open>
  C1. The verifier does not return a boolean for every signature: it panics (slice bounds
  out of range) exactly on the signatures shorter than the seven characters of the prefix,
  among them the empty signature that \<open>indexPost\<close> passes on when the request has no
  signature header, and \<open>sha1=\<close>.
\<close>

theorem verifyGithubSignature256_short_signature_panics:
  "(verifyGithubSignature256 hmac_sha256 secret signature body = Inl SliceBoundsOutOfRange
      \<longleftrightarrow> length signature < 7)
   \<and> verifyGithubSignature256 hmac_sha256 secret [] body = Inl SliceBoundsOutOfRange
   \<and> verifyGithubSignature256 hmac_sha256 secret ''sha1='' body = Inl SliceBoundsOutOfRange"
  by (simp add: verifyGithubSignature256_def signaturePrefix_def Let_def split: sum.splits)

text \<open>
  C10. The first seven characters of the signature are dropped unread: two signatures
  that differ only there get the same verdict, and any seven characters followed by the
  hexadecimal encoding of the expected MAC are accepted.
\<close>

theorem verifyGithubSignature256_prefix_unread:
  assumes "length p = 7" and "length p' = 7"
  shows "verifyGithubSignature256 hmac_sha256 secret (p @ rest) body
           = verifyGithubSignature256 hmac_sha256 secret (p' @ rest) body
    \<and> verifyGithubSignature256 hmac_sha256 secret
          (p @ hex_EncodeToString (hmac_sha256 secret body)) body = Inr True"
  using assms
  by (simp add: verifyGithubSignature256_def signaturePrefix_def Let_def
      hex_DecodeString_EncodeToString hmac_Equal_def)

theorem verifyGithubSignature256_prefix_unread_witness:
  "verifyGithubSignature256 mac0 ''secret'' (''XXXXXXX'' @ ''deadbeef'') [1, 2, 3]
     = verifyGithubSignature256 mac0 ''secret'' (''sha256='' @ ''deadbeef'') [1, 2, 3]
   \<and> verifyGithubSignature256 mac0 ''secret''
        (''XXXXXXX'' @ hex_EncodeToString (mac0 ''secret'' [1, 2, 3])) [1, 2, 3] = Inr True
   \<and> ''XXXXXXX'' @ hex_EncodeToString (mac0 ''secret'' [1, 2, 3]) = ''XXXXXXXdeadbeef''"
proof -
  have h: "length ''XXXXXXX'' = 7" "length ''sha256='' = 7"
    by simp_all
  have e: "hex_EncodeToString (mac0 ''secret'' [1, 2, 3]) = ''deadbeef''"
    by (simp add: mac0_def hextable_def)
  from verifyGithubSignature256_prefix_unread [OF h, of mac0 "''secret''" "''deadbeef''" "[1, 2, 3]"]
  show ?thesis
    unfolding e by auto
qed

section \<open>\<open>processGithubEvent\<close>\<close>

lemma index_bool_eventTypes: "index_bool eventTypes t \<longleftrightarrow> t \<in> set recognized"
  by (auto simp: index_bool_def eventTypes_def recognized_def)

lemma switch_eventType_recognized:
  "t \<in> set recognized \<Longrightarrow> switch_eventType t metadata \<noteq> None"
  by (auto simp: recognized_def switch_eventType_def)

lemma errors_Join_errs_of:
  "\<not> tOk v \<or> \<not> iOk v \<Longrightarrow> errors_Join (errs_of v) = Some (Joined (errs_of v))"
  by (auto simp: errors_Join_def errs_of_def)

lemma LookupMap_string_found:
  "resolves (VMap m) keys (VString s) \<Longrightarrow> LookupMap_string m keys = (s, True)"
  using LookupMap_found_iff [of TString m keys "VString s"]
  by (simp add: LookupMap_string_def)

lemma LookupMap_float64_found:
  "resolves (VMap m) keys (VFloat64 q) \<Longrightarrow> LookupMap_float64 m keys = (q, True)"
  using LookupMap_found_iff [of TFloat64 m keys "VFloat64 q"]
  by (simp add: LookupMap_float64_def)

lemma LookupMap_string_absent:
  assumes "\<And>s. \<not> resolves (VMap m) keys (VString s)"
  shows "LookupMap_string m keys = ([], False)"
proof (cases "LookupMap_loop (VMap m) keys")
  case None
  then show ?thesis by (simp add: LookupMap_string_def LookupMap_def)
next
  case (Some val)
  then have "resolves (VMap m) keys val" by (simp add: LookupMap_loop_resolves)
  with assms have "\<not> assertT TString val" by (cases val) auto
  with Some show ?thesis by (simp add: LookupMap_string_def LookupMap_def)
qed

text \<open>
  C9. \<open>processGithubEvent\<close> panics with an index out of range when the headers hold no
  value for \<open>X-Github-Event\<close> (the key is absent, or its list of values is empty), and,
  for a recognized event type, when they hold no value for \<open>X-Hub-Signature-256\<close>.
\<close>

theorem processGithubEvent_missing_header_panics:
  "((headers ''X-Github-Event'' = None \<or> headers ''X-Github-Event'' = Some [])
      \<longrightarrow> processGithubEvent types time_Parse reqMessage headers metadata rawMetadata
            = Inl IndexOutOfRange)
   \<and> (headers ''X-Github-Event'' = Some (eventType # vs) \<and> eventType \<in> set recognized
       \<and> (headers ''X-Hub-Signature-256'' = None \<or> headers ''X-Hub-Signature-256'' = Some [])
      \<longrightarrow> processGithubEvent eventTypes time_Parse reqMessage headers metadata rawMetadata
            = Inl IndexOutOfRange)"
  by (auto simp: processGithubEvent_def index0_def index_bool_eventTypes)

theorem processGithubEvent_missing_header_panics_witness:
  "processGithubEvent eventTypes parse0 msg0 Map.empty [] ''{}'' = Inl IndexOutOfRange
   \<and> processGithubEvent eventTypes parse0 msg0 [''X-Github-Event'' \<mapsto> []] [] ''{}''
        = Inl IndexOutOfRange
   \<and> processGithubEvent eventTypes parse0 msg0 [''X-Github-Event'' \<mapsto> [''push'']] [] ''{}''
        = Inl IndexOutOfRange
   \<and> processGithubEvent eventTypes parse0 msg0
        [''X-Github-Event'' \<mapsto> [''push''], ''X-Hub-Signature-256'' \<mapsto> []] [] ''{}''
        = Inl IndexOutOfRange"
proof -
  have r: "''push'' \<in> set recognized" by (simp add: recognized_def)
  show ?thesis
    using r
      processGithubEvent_missing_header_panics
        [where headers = Map.empty and types = eventTypes and time_Parse = parse0
            and reqMessage = msg0 and metadata = "[]" and rawMetadata = "''{}''"
            and eventType = "''push''" and vs = "[]"]
      processGithubEvent_missing_header_panics
        [where headers = "[''X-Github-Event'' \<mapsto> []]" and types = eventTypes
            and time_Parse = parse0 and reqMessage = msg0 and metadata = "[]"
            and rawMetadata = "''{}''" and eventType = "''push''" and vs = "[]"]
      processGithubEvent_missing_header_panics
        [where headers = "[''X-Github-Event'' \<mapsto> [''push'']]" and types = eventTypes
            and time_Parse = parse0 and reqMessage = msg0 and metadata = "[]"
            and rawMetadata = "''{}''" and eventType = "''push''" and vs = "[]"]
      processGithubEvent_missing_header_panics
        [where headers = "[''X-Github-Event'' \<mapsto> [''push''], ''X-Hub-Signature-256'' \<mapsto> []]"
            and types = eventTypes and time_Parse = parse0 and reqMessage = msg0
            and metadata = "[]" and rawMetadata = "''{}''" and eventType = "''push''"
            and vs = "[]"]
    by simp
qed

text \<open>
  C5. When the first value of \<open>X-Github-Event\<close> is not one of the eleven recognized
  types (\<open>star\<close>, say), \<open>processGithubEvent\<close> returns \<open>Skip\<close>: no event and no error. The
  \<open>default\<close> branch of the \<open>switch\<close>, which a type reaches only when the table
  \<open>eventTypes\<close> holds it and no \<open>case\<close> names it, returns the error "event type ... is not
  supported", which is not \<open>Skip\<close>. With the table of the source no recognized type
  reaches that branch, and no recognized type is skipped.
\<close>

theorem unrecognized_type_skips:
  "(headers ''X-Github-Event'' = Some (eventType # vs) \<and> eventType \<notin> set recognized
      \<longrightarrow> processGithubEvent eventTypes time_Parse reqMessage headers metadata rawMetadata
            = Inr Skip)
   \<and> (headers ''X-Github-Event'' = Some (eventType # vs)
       \<and> headers ''X-Hub-Signature-256'' = Some (signature # ws)
       \<and> index_bool types eventType \<and> switch_eventType eventType metadata = None
      \<longrightarrow> processGithubEvent types time_Parse reqMessage headers metadata rawMetadata
            = Inr (Error (NotSupported eventType))
          \<and> processGithubEvent types time_Parse reqMessage headers metadata rawMetadata
            \<noteq> Inr Skip)
   \<and> (eventType \<in> set recognized \<longrightarrow> switch_eventType eventType metadata \<noteq> None)
   \<and> (headers ''X-Github-Event'' = Some (eventType # vs) \<and> eventType \<in> set recognized
      \<longrightarrow> processGithubEvent eventTypes time_Parse reqMessage headers metadata rawMetadata
            \<noteq> Inr Skip)"
proof (intro conjI impI)
  assume "headers ''X-Github-Event'' = Some (eventType # vs) \<and> eventType \<notin> set recognized"
  then show "processGithubEvent eventTypes time_Parse reqMessage headers metadata rawMetadata
      = Inr Skip"
    by (simp add: processGithubEvent_def index0_def index_bool_eventTypes)
next
  assume h: "headers ''X-Github-Event'' = Some (eventType # vs)
       \<and> headers ''X-Hub-Signature-256'' = Some (signature # ws)
       \<and> index_bool types eventType \<and> switch_eventType eventType metadata = None"
  then show e: "processGithubEvent types time_Parse reqMessage headers metadata rawMetadata
      = Inr (Error (NotSupported eventType))"
    by (simp add: processGithubEvent_def index0_def)
  show "processGithubEvent types time_Parse reqMessage headers metadata rawMetadata \<noteq> Inr Skip"
    unfolding e by simp
next
  assume "eventType \<in> set recognized"
  then show "switch_eventType eventType metadata \<noteq> None"
    by (rule switch_eventType_recognized)
next
  assume h: "headers ''X-Github-Event'' = Some (eventType # vs) \<and> eventType \<in> set recognized"
  then obtain v where v: "switch_eventType eventType metadata = Some v"
    using switch_eventType_recognized [of eventType metadata] by auto
  show "processGithubEvent eventTypes time_Parse reqMessage headers metadata rawMetadata
      \<noteq> Inr Skip"
  proof (cases "index0 headers ''X-Hub-Signature-256''")
    case (Inl p)
    with h show ?thesis
      by (simp add: processGithubEvent_def index0_def index_bool_eventTypes)
  next
    case (Inr sg)
    show ?thesis
    proof (cases "\<not> tOk v \<or> \<not> iOk v")
      case True
      with h v Inr errors_Join_errs_of [OF True] show ?thesis
        by (simp add: processGithubEvent_def index0_def index_bool_eventTypes)
    next
      case False
      with h v Inr show ?thesis
        by (simp add: processGithubEvent_def index0_def index_bool_eventTypes
            split: sum.splits)
    qed
  qed
qed

theorem unrecognized_type_skips_witness:
  "processGithubEvent eventTypes parse0 msg0 [''X-Github-Event'' \<mapsto> [''star'']] [] ''{}''
     = Inr Skip
   \<and> processGithubEvent ((''star'', True) # eventTypes) parse0 msg0
        [''X-Github-Event'' \<mapsto> [''star''], ''X-Hub-Signature-256'' \<mapsto> [''sha256=00'']] [] ''{}''
     = Inr (Error (NotSupported ''star''))
   \<and> switch_eventType ''push'' [] \<noteq> None
   \<and> processGithubEvent eventTypes parse0 msg0
        [''X-Github-Event'' \<mapsto> [''push''], ''X-Hub-Signature-256'' \<mapsto> [''sha256=00'']] [] ''{}''
     \<noteq> Inr Skip"
proof -
  have r: "''push'' \<in> set recognized" "''star'' \<notin> set recognized"
    by (simp_all add: recognized_def)
  have s: "index_bool ((''star'', True) # eventTypes) ''star''"
    "switch_eventType ''star'' [] = None"
    by (simp_all add: index_bool_def switch_eventType_def)
  show ?thesis
    using r s
      unrecognized_type_skips
        [where headers = "[''X-Github-Event'' \<mapsto> [''star'']]" and eventType = "''star''"
            and vs = "[]" and time_Parse = parse0 and reqMessage = msg0 and metadata = "[]"
            and rawMetadata = "''{}''"]
      unrecognized_type_skips
        [where headers = "[''X-Github-Event'' \<mapsto> [''star''],
              ''X-Hub-Signature-256'' \<mapsto> [''sha256=00'']]"
            and eventType = "''star''" and vs = "[]" and time_Parse = parse0
            and reqMessage = msg0 and metadata = "[]" and rawMetadata = "''{}''"
            and signature = "''sha256=00''" and ws = "[]"
            and types = "(''star'', True) # eventTypes"]
      unrecognized_type_skips
        [where headers = "[''X-Github-Event'' \<mapsto> [''push''],
              ''X-Hub-Signature-256'' \<mapsto> [''sha256=00'']]"
            and eventType = "''push''" and vs = "[]" and time_Parse = parse0
            and reqMessage = msg0 and metadata = "[]" and rawMetadata = "''{}''"]
    by simp
qed

text \<open>
  C6. For a \<open>check_run\<close> event whose payload holds strings at \<open>check_run.completed_at\<close>
  and at \<open>check_run.started_at\<close>, the timestamp is the value of \<open>completed_at\<close>; when it
  holds no string at \<open>check_run.completed_at\<close>, the timestamp is the value of
  \<open>started_at\<close>. The timestamp is the string that \<open>processGithubEvent\<close> hands to
  \<open>time.Parse\<close> once the identifier is found as well.
\<close>

theorem check_run_timestamp_priority:
  assumes "resolves (VMap metadata) [''check_run'', ''started_at''] (VString s)"
  shows "switch_eventType ''check_run'' metadata = Some (case_check_run metadata)
       \<and> (resolves (VMap metadata) [''check_run'', ''completed_at''] (VString c)
            \<longrightarrow> maybeTimeCreated (case_check_run metadata) = c
                \<and> tOk (case_check_run metadata))
       \<and> ((\<forall>c. \<not> resolves (VMap metadata) [''check_run'', ''completed_at''] (VString c))
            \<longrightarrow> maybeTimeCreated (case_check_run metadata) = s
                \<and> tOk (case_check_run metadata))
       \<and> (headers ''X-Github-Event'' = Some (''check_run'' # vs)
            \<and> headers ''X-Hub-Signature-256'' = Some (signature # ws)
            \<and> resolves (VMap metadata) [''check_run'', ''id''] (VString i)
            \<longrightarrow> processGithubEvent eventTypes time_Parse reqMessage headers metadata rawMetadata
                = (case time_Parse (maybeTimeCreated (case_check_run metadata)) of
                     Inl err \<Rightarrow> Inr (Error (CouldNotParse err))
                   | Inr timeCreated \<Rightarrow>
                       Inr (Event
                         \<lparr>EventType = ''check_run'', Id' = i, Metadata = rawMetadata,
                          TimeCreated = timeCreated, Signature = signature,
                          MsgId = MessageId reqMessage,
                          Source = (if headers ''Mock'' \<noteq> None then ''github_mock''
                                    else ''github'')\<rparr>)))"
proof (intro conjI impI)
  show "switch_eventType ''check_run'' metadata = Some (case_check_run metadata)"
    by (simp add: switch_eventType_def)
next
  assume c: "resolves (VMap metadata) [''check_run'', ''completed_at''] (VString c)"
  have f: "first_of metadata [''check_run'', ''completed_at''] [''check_run'', ''started_at'']
      = vars0\<lparr>maybeTimeCreated := c, tOk := True\<rparr>"
    by (simp add: first_of_def LookupMap_string_found [OF c])
  show "maybeTimeCreated (case_check_run metadata) = c"
    by (simp add: case_check_run_def f split: prod.splits)
  show "tOk (case_check_run metadata)"
    by (simp add: case_check_run_def f split: prod.splits)
next
  assume "\<forall>c. \<not> resolves (VMap metadata) [''check_run'', ''completed_at''] (VString c)"
  then have a: "LookupMap_string metadata [''check_run'', ''completed_at''] = ([], False)"
    by (intro LookupMap_string_absent) simp
  have f: "first_of metadata [''check_run'', ''completed_at''] [''check_run'', ''started_at'']
      = vars0\<lparr>maybeTimeCreated := s, tOk := True\<rparr>"
    by (simp add: first_of_def a LookupMap_string_found [OF assms])
  show "maybeTimeCreated (case_check_run metadata) = s"
    by (simp add: case_check_run_def f split: prod.splits)
  show "tOk (case_check_run metadata)"
    by (simp add: case_check_run_def f split: prod.splits)
next
  assume h: "headers ''X-Github-Event'' = Some (''check_run'' # vs)
            \<and> headers ''X-Hub-Signature-256'' = Some (signature # ws)
            \<and> resolves (VMap metadata) [''check_run'', ''id''] (VString i)"
  then have i: "LookupMap_string metadata [''check_run'', ''id''] = (i, True)"
    by (simp add: LookupMap_string_found)
  have t: "tOk (first_of metadata [''check_run'', ''completed_at''] [''check_run'', ''started_at''])"
    by (simp add: first_of_def LookupMap_string_found [OF assms] split: prod.splits)
  have v: "tOk (case_check_run metadata)" "iOk (case_check_run metadata)"
    "id' (case_check_run metadata) = i"
    using t by (simp_all add: case_check_run_def i)
  have r: "index_bool eventTypes ''check_run''"
    by (simp add: index_bool_eventTypes recognized_def)
  have sw: "switch_eventType ''check_run'' metadata = Some (case_check_run metadata)"
    by (simp add: switch_eventType_def)
  show "processGithubEvent eventTypes time_Parse reqMessage headers metadata rawMetadata
                = (case time_Parse (maybeTimeCreated (case_check_run metadata)) of
                     Inl err \<Rightarrow> Inr (Error (CouldNotParse err))
                   | Inr timeCreated \<Rightarrow>
                       Inr (Event
                         \<lparr>EventType = ''check_run'', Id' = i, Metadata = rawMetadata,
                          TimeCreated = timeCreated, Signature = signature,
                          MsgId = MessageId reqMessage,
                          Source = (if headers ''Mock'' \<noteq> None then ''github_mock''
                                    else ''github'')\<rparr>))"
    using h by (simp add: processGithubEvent_def index0_def r sw v split: sum.splits)
qed

lemma resolves_check_run_both:
  "resolves (VMap check_run_both) [''check_run'', ''started_at''] (VString ''2024-01-02T03:04:05Z'')"
  "resolves (VMap check_run_both) [''check_run'', ''completed_at''] (VString ''2024-01-02T03:09:00Z'')"
  "resolves (VMap check_run_both) [''check_run'', ''id''] (VString ''cr-1'')"
  by (simp_all add: LookupMap_loop_resolves [symmetric] check_run_both_def)

lemma resolves_check_run_started:
  "resolves (VMap check_run_started) [''check_run'', ''started_at''] (VString ''2024-01-02T03:04:05Z'')"
  "\<forall>c. \<not> resolves (VMap check_run_started) [''check_run'', ''completed_at''] (VString c)"
  by (simp_all add: LookupMap_loop_resolves [symmetric] check_run_started_def)

theorem check_run_timestamp_priority_witness:
  "maybeTimeCreated (case_check_run check_run_both) = ''2024-01-02T03:09:00Z''
   \<and> tOk (case_check_run check_run_both)
   \<and> maybeTimeCreated (case_check_run check_run_started) = ''2024-01-02T03:04:05Z''
   \<and> tOk (case_check_run check_run_started)
   \<and> processGithubEvent eventTypes parse0 msg0 (github_headers ''check_run'') check_run_both ''{}''
       = Inr (Event
           \<lparr>EventType = ''check_run'', Id' = ''cr-1'', Metadata = ''{}'',
            TimeCreated = ''2024-01-02T03:09:00Z'', Signature = ''sha256=00'',
            MsgId = ''m1'', Source = ''github''\<rparr>)"
proof -
  note a = check_run_timestamp_priority [OF resolves_check_run_both(1),
      where c = "''2024-01-02T03:09:00Z''" and headers = "github_headers ''check_run''"
        and vs = "[]" and signature = "''sha256=00''" and ws = "[]" and i = "''cr-1''"
        and time_Parse = parse0 and reqMessage = msg0 and rawMetadata = "''{}''"]
  note b = check_run_timestamp_priority [OF resolves_check_run_started(1),
      where c = "[]" and headers = "github_headers ''check_run''"
        and vs = "[]" and signature = "''sha256=00''" and ws = "[]" and i = "''cr-1''"
        and time_Parse = parse0 and reqMessage = msg0 and rawMetadata = "''{}''"]
  have h: "github_headers ''check_run'' ''X-Github-Event'' = Some [''check_run'']"
    "github_headers ''check_run'' ''X-Hub-Signature-256'' = Some [''sha256=00'']"
    "github_headers ''check_run'' ''Mock'' = None"
    by (simp_all add: github_headers_def)
  from a resolves_check_run_both(2,3) h
  have 1: "maybeTimeCreated (case_check_run check_run_both) = ''2024-01-02T03:09:00Z''"
    and 2: "tOk (case_check_run check_run_both)"
    and 5: "processGithubEvent eventTypes parse0 msg0 (github_headers ''check_run'') check_run_both ''{}''
       = Inr (Event
           \<lparr>EventType = ''check_run'', Id' = ''cr-1'', Metadata = ''{}'',
            TimeCreated = ''2024-01-02T03:09:00Z'', Signature = ''sha256=00'',
            MsgId = ''m1'', Source = ''github''\<rparr>)"
    by (simp_all add: parse0_def msg0_def)
  from b resolves_check_run_started(2)
  have 3: "maybeTimeCreated (case_check_run check_run_started) = ''2024-01-02T03:04:05Z''"
    and 4: "tOk (case_check_run check_run_started)"
    by simp_all
  from 1 2 3 4 5 show ?thesis by simp
qed

lemma digits_42: "digits 42 = ''42''"
proof -
  have "digits 4 = ''4''" by (subst digits.simps) simp
  then show ?thesis by (subst digits.simps) simp
qed

lemma Sprintf_d_42: "Sprintf_d (int_of_float64 42) = ''42''"
  by (simp add: Sprintf_d_def int_of_float64_def digits_42)

text \<open>
  C7. For a \<open>pull_request\<close> event whose payload holds \<open>repository.name = "acme/widgets"\<close>,
  the JSON number 42 at \<open>number\<close> and, at \<open>pull_request.updated_at\<close>, a timestamp that
  \<open>time.Parse\<close> accepts, \<open>processGithubEvent\<close> produces an event whose id is
  \<open>acme/widgets/42\<close>.
\<close>

theorem pull_request_id:
  assumes "headers ''X-Github-Event'' = Some (''pull_request'' # vs)"
    and "headers ''X-Hub-Signature-256'' = Some (signature # ws)"
    and "resolves (VMap metadata) [''repository'', ''name''] (VString ''acme/widgets'')"
    and "resolves (VMap metadata) [''number''] (VFloat64 42)"
    and "resolves (VMap metadata) [''pull_request'', ''updated_at''] (VString updated_at)"
    and "time_Parse updated_at = Inr timeCreated"
  shows "processGithubEvent eventTypes time_Parse reqMessage headers metadata rawMetadata
       = Inr (Event
           \<lparr>EventType = ''pull_request'', Id' = ''acme/widgets/42'', Metadata = rawMetadata,
            TimeCreated = timeCreated, Signature = signature, MsgId = MessageId reqMessage,
            Source = (if headers ''Mock'' \<noteq> None then ''github_mock'' else ''github'')\<rparr>)"
proof -
  have v: "case_pull_request metadata
      = vars0\<lparr>maybeTimeCreated := updated_at, tOk := True,
               id' := ''acme/widgets/42'', iOk := True\<rparr>"
    by (simp add: case_pull_request_def LookupMap_string_found [OF assms(3)]
        LookupMap_string_found [OF assms(5)] LookupMap_float64_found [OF assms(4)]
        Sprintf_d_42)
  have r: "index_bool eventTypes ''pull_request''"
    by (simp add: index_bool_eventTypes recognized_def)
  have sw: "switch_eventType ''pull_request'' metadata = Some (case_pull_request metadata)"
    by (simp add: switch_eventType_def)
  show ?thesis
    using assms(1,2,6)
    by (simp add: processGithubEvent_def index0_def r sw v vars0_def)
qed

lemma resolves_pull_request_42:
  "resolves (VMap pull_request_42) [''repository'', ''name''] (VString ''acme/widgets'')"
  "resolves (VMap pull_request_42) [''number''] (VFloat64 42)"
  "resolves (VMap pull_request_42) [''pull_request'', ''updated_at'']
     (VString ''2024-01-02T03:04:05Z'')"
  by (simp_all add: LookupMap_loop_resolves [symmetric] pull_request_42_def)

theorem pull_request_id_witness:
  "processGithubEvent eventTypes parse0 msg0 (github_headers ''pull_request'') pull_request_42
       ''{}''
     = Inr (Event
         \<lparr>EventType = ''pull_request'', Id' = ''acme/widgets/42'', Metadata = ''{}'',
          TimeCreated = ''2024-01-02T03:04:05Z'', Signature = ''sha256=00'', MsgId = ''m1'',
          Source = ''github''\<rparr>)"
proof -
  have h: "github_headers ''pull_request'' ''X-Github-Event'' = Some (''pull_request'' # [])"
    "github_headers ''pull_request'' ''X-Hub-Signature-256'' = Some (''sha256=00'' # [])"
    by (simp_all add: github_headers_def)
  have p: "parse0 ''2024-01-02T03:04:05Z'' = Inr ''2024-01-02T03:04:05Z''"
    by (simp add: parse0_def)
  from pull_request_id [where headers = "github_headers ''pull_request''"
      and time_Parse = parse0 and reqMessage = msg0 and rawMetadata = "''{}''",
      OF h resolves_pull_request_42 p]
  show ?thesis
    by (simp add: github_headers_def msg0_def)
qed

lemma switch_eventType_empty:
  assumes "eventType \<in> set recognized"
  shows "switch_eventType eventType [] =
     Some (if eventType = ''pull_request_review''
           then vars0\<lparr>tErr := Some (NotFound [''review''] []),
                       iErr := Some (NotFound [''review''] [])\<rparr>
           else vars0)"
proof -
  have l: "LookupMap_string [] keys = ([], False)" if "keys \<noteq> []" for keys
    using that by (cases keys) (simp_all add: LookupMap_string_def LookupMap_def)
  have f: "LookupMap_float64 [] keys = (0, False)" if "keys \<noteq> []" for keys
    using that by (cases keys) (simp_all add: LookupMap_float64_def LookupMap_def)
  have e: "LookupMapE_string [] (k # keys) = Inl (NotFound [k] [])"
    "LookupMapE_float64 [] (k # keys) = Inl (NotFound [k] [])" for k keys
    by (simp_all add: LookupMapE_string_def LookupMapE_float64_def LookupMapE_def)
  from assms show ?thesis
    unfolding recognized_def
    by (auto simp: switch_eventType_def case_push_def case_pull_request_def
        case_pull_request_review_def case_pull_request_review_comment_def case_issues_def
        case_issue_comment_def case_check_run_def case_check_suite_def
        case_deployment_status_def case_status_def case_release_def first_of_def l f e
        vars0_def)
qed

lemma processGithubEvent_errs:
  assumes "headers ''X-Github-Event'' = Some (eventType # vs)"
    and "headers ''X-Hub-Signature-256'' = Some (signature # ws)"
    and "eventType \<in> set recognized"
    and "switch_eventType eventType metadata = Some v"
    and "\<not> tOk v \<or> \<not> iOk v"
  shows "processGithubEvent eventTypes time_Parse reqMessage headers metadata rawMetadata
        = Inr (Error (Joined (errs_of v)))"
proof -
  have r: "index_bool eventTypes eventType"
    using assms(3) by (simp add: index_bool_eventTypes)
  show ?thesis
    using assms(1,2,5)
    by (simp add: processGithubEvent_def index0_def r assms(4) errors_Join_errs_of)
qed

text \<open>
  C8. For a recognized event type, when the \<open>switch\<close> finds neither the timestamp nor the
  identifier, \<open>processGithubEvent\<close> returns one error that joins both causes, the
  timestamp's first; its message is the two messages on two lines. When it finds
  exactly one of the two, the error joins the one cause of the other. A cause is the
  error of \<open>LookupMapE\<close> where the case uses it, and "could not find time_created" or
  "could not find id" otherwise. On a payload with no field at all, every recognized type
  reports both causes.
\<close>

theorem missing_fields_accumulate:
  assumes "headers ''X-Github-Event'' = Some (eventType # vs)"
    and "headers ''X-Hub-Signature-256'' = Some (signature # ws)"
    and "eventType \<in> set recognized"
  shows "(\<exists>v t i.
      switch_eventType eventType metadata = Some v
    \<and> t = (case tErr v of None \<Rightarrow> CouldNotFindTimeCreated | Some e \<Rightarrow> LookupError e)
    \<and> i = (case iErr v of None \<Rightarrow> CouldNotFindId | Some e \<Rightarrow> LookupError e)
    \<and> (\<not> tOk v \<and> \<not> iOk v \<longrightarrow>
          processGithubEvent eventTypes time_Parse reqMessage headers metadata rawMetadata
            = Inr (Error (Joined [t, i])))
    \<and> (\<not> tOk v \<and> iOk v \<longrightarrow>
          processGithubEvent eventTypes time_Parse reqMessage headers metadata rawMetadata
            = Inr (Error (Joined [t])))
    \<and> (tOk v \<and> \<not> iOk v \<longrightarrow>
          processGithubEvent eventTypes time_Parse reqMessage headers metadata rawMetadata
            = Inr (Error (Joined [i])))
    \<and> Error_message fmtV (Joined [t, i])
          = Error_message fmtV t @ [CHR 0x0A] @ Error_message fmtV i
    \<and> Error_message fmtV (Joined [t]) = Error_message fmtV t
    \<and> Error_message fmtV (Joined [i]) = Error_message fmtV i)
    \<and> processGithubEvent eventTypes time_Parse reqMessage headers [] rawMetadata
        = Inr (Error (Joined
            (if eventType = ''pull_request_review''
             then [LookupError (NotFound [''review''] []), LookupError (NotFound [''review''] [])]
             else [CouldNotFindTimeCreated, CouldNotFindId])))"
proof (rule conjI)
  from assms(3) obtain v where v: "switch_eventType eventType metadata = Some v"
    using switch_eventType_recognized [of eventType metadata] by auto
  have p: "\<not> tOk v \<or> \<not> iOk v \<Longrightarrow>
      processGithubEvent eventTypes time_Parse reqMessage headers metadata rawMetadata
        = Inr (Error (Joined (errs_of v)))"
    using assms v by (rule processGithubEvent_errs)
  show "\<exists>v t i.
      switch_eventType eventType metadata = Some v
    \<and> t = (case tErr v of None \<Rightarrow> CouldNotFindTimeCreated | Some e \<Rightarrow> LookupError e)
    \<and> i = (case iErr v of None \<Rightarrow> CouldNotFindId | Some e \<Rightarrow> LookupError e)
    \<and> (\<not> tOk v \<and> \<not> iOk v \<longrightarrow>
          processGithubEvent eventTypes time_Parse reqMessage headers metadata rawMetadata
            = Inr (Error (Joined [t, i])))
    \<and> (\<not> tOk v \<and> iOk v \<longrightarrow>
          processGithubEvent eventTypes time_Parse reqMessage headers metadata rawMetadata
            = Inr (Error (Joined [t])))
    \<and> (tOk v \<and> \<not> iOk v \<longrightarrow>
          processGithubEvent eventTypes time_Parse reqMessage headers metadata rawMetadata
            = Inr (Error (Joined [i])))
    \<and> Error_message fmtV (Joined [t, i])
          = Error_message fmtV t @ [CHR 0x0A] @ Error_message fmtV i
    \<and> Error_message fmtV (Joined [t]) = Error_message fmtV t
    \<and> Error_message fmtV (Joined [i]) = Error_message fmtV i"
    using v p by (auto simp: errs_of_def)
next
  note e = switch_eventType_empty [OF assms(3)]
  show "processGithubEvent eventTypes time_Parse reqMessage headers [] rawMetadata
        = Inr (Error (Joined
            (if eventType = ''pull_request_review''
             then [LookupError (NotFound [''review''] []), LookupError (NotFound [''review''] [])]
             else [CouldNotFindTimeCreated, CouldNotFindId])))"
    by (subst processGithubEvent_errs [OF assms e]) (simp_all add: vars0_def errs_of_def)
qed

theorem missing_fields_accumulate_witness:
  "processGithubEvent eventTypes parse0 msg0 (github_headers ''push'') [] ''{}''
     = Inr (Error (Joined [CouldNotFindTimeCreated, CouldNotFindId]))
   \<and> Error_message (\<lambda>v. []) (Joined [CouldNotFindTimeCreated, CouldNotFindId])
     = ''could not find time_created'' @ [CHR 0x0A] @ ''could not find id''"
proof -
  have h: "github_headers ''push'' ''X-Github-Event'' = Some (''push'' # [])"
    "github_headers ''push'' ''X-Hub-Signature-256'' = Some (''sha256=00'' # [])"
    by (simp_all add: github_headers_def)
  have r: "''push'' \<in> set recognized"
    by (simp add: recognized_def)
  have s: "switch_eventType ''push'' [] = Some vars0"
    by (simp add: switch_eventType_def case_push_def LookupMap_string_def LookupMap_def
        vars0_def)
  from missing_fields_accumulate [where headers = "github_headers ''push''"
      and time_Parse = parse0 and reqMessage = msg0 and rawMetadata = "''{}''"
      and metadata = "[]" and fmtV = "\<lambda>v. []", OF h r]
  show ?thesis
    unfolding s by (auto simp: vars0_def)
qed

section \<open>The consumer endpoint\<close>

lemma push_1_event:
  "processGithubEvent eventTypes parse0 msg0 (github_headers ''push'') push_1 ''{}''
     = Inr (Event
         \<lparr>EventType = ''push'', Id' = ''8f3c'', Metadata = ''{}'',
          TimeCreated = ''2024-01-02T03:04:05Z'', Signature = ''sha256=00'', MsgId = ''m1'',
          Source = ''github''\<rparr>)"
  by (simp add: processGithubEvent_def index0_def github_headers_def index_bool_def
      eventTypes_def switch_eventType_def case_push_def LookupMap_string_def LookupMap_def
      push_1_def vars0_def parse0_def msg0_def)

lemma decodedD:
  assumes "decoded x = Some (msg, attrs, metadata, data)"
  obtains body attrsStr metadataStr where
    "ReadAll x = Inr body" "Unmarshal_msg x body = Inr msg"
    "Unmarshal_attrs x (Headers msg) = Inr attrs" "DecodeString x (Data msg) = Inr data"
    "Unmarshal_metadata x data = Inr metadata" "Marshal_attrs x attrs = Inr attrsStr"
    "Marshal_metadata x metadata = Inr metadataStr"
  using assms by (auto simp: decoded_def split: sum.splits)

lemma indexPost_decoded:
  assumes "decoded x = Some (msg, attrs, metadata, data)"
  shows "indexPost x =
          (case processGithubEvent eventTypes (Parse x) msg attrs metadata data of
             Inl p \<Rightarrow> Inl p
           | Inr outcome \<Rightarrow> Inr StatusOK)"
proof -
  from assms obtain body attrsStr metadataStr where
    "ReadAll x = Inr body" "Unmarshal_msg x body = Inr msg"
    "Unmarshal_attrs x (Headers msg) = Inr attrs" "DecodeString x (Data msg) = Inr data"
    "Unmarshal_metadata x data = Inr metadata" "Marshal_attrs x attrs = Inr attrsStr"
    "Marshal_metadata x metadata = Inr metadataStr"
    by (rule decodedD)
  then show ?thesis
    by (simp add: indexPost_def split: sum.splits outcome.splits option.splits)
qed

lemma indexPost_not_decoded:
  "decoded x = None \<Longrightarrow> indexPost x = Inr StatusInternalServerError"
  unfolding indexPost_def decoded_def
  apply (cases "ReadAll x"; simp)
  subgoal for body
    apply (cases "Unmarshal_msg x body"; simp)
    subgoal for msg
      apply (cases "Unmarshal_attrs x (Headers msg)"; simp)
      subgoal for attrs
        apply (cases "DecodeString x (Data msg)"; simp)
        subgoal for data
          apply (cases "Unmarshal_metadata x data"; simp)
          subgoal for metadata
            apply (cases "Marshal_attrs x attrs"; simp)
            subgoal for attrsStr
              by (cases "Marshal_metadata x metadata"; simp)
            done
          done
        done
      done
    done
  done

text \<open>
  C2, as stated, fails: when the sink refuses the row of a well-formed \<open>push\<close> event,
  \<open>indexPost\<close> answers 200, not 500.
\<close>

theorem indexPost_sink_failure_counterexample:
  "processGithubEvent eventTypes (Parse sink_down) msg0 (github_headers ''push'') push_1 ''{}''
     = Inr (Event
         \<lparr>EventType = ''push'', Id' = ''8f3c'', Metadata = ''{}'',
          TimeCreated = ''2024-01-02T03:04:05Z'', Signature = ''sha256=00'', MsgId = ''m1'',
          Source = ''github''\<rparr>)
   \<and> insertIntoBigQuery sink_down
        \<lparr>EventType = ''push'', Id' = ''8f3c'', Metadata = ''{}'',
         TimeCreated = ''2024-01-02T03:04:05Z'', Signature = ''sha256=00'', MsgId = ''m1'',
         Source = ''github''\<rparr> = Some ''sink unavailable''
   \<and> indexPost sink_down = Inr 200
   \<and> indexPost sink_down \<noteq> Inr 500"
proof -
  have p: "Parse sink_down = parse0"
    by (simp add: sink_down_def)
  have i: "indexPost sink_down = Inr 200"
    by (simp add: indexPost_def sink_down_def push_1_event StatusOK_def)
  show ?thesis
    unfolding p push_1_event i by (simp add: sink_down_def)
qed

text \<open>
  C2, amended. \<open>indexPost\<close> answers 500 exactly when a transport or decoding step fails:
  the body cannot be read, or the envelope, its headers, its base64 data or the payload
  cannot be decoded, or headers or payload cannot be serialised for the log. When all
  of them succeed it answers 200 whatever \<open>processGithubEvent\<close> returns and whether or
  not the sink accepts the row, unless \<open>processGithubEvent\<close> panics.
\<close>

theorem indexPost_status:
  "(indexPost x = Inr StatusInternalServerError \<longleftrightarrow> decoded x = None)
   \<and> (decoded x = Some (msg, attrs, metadata, data) \<longrightarrow>
        indexPost x =
          (case processGithubEvent eventTypes (Parse x) msg attrs metadata data of
             Inl p \<Rightarrow> Inl p
           | Inr outcome \<Rightarrow> Inr StatusOK))
   \<and> StatusOK = 200 \<and> StatusInternalServerError = 500"
proof (intro conjI impI)
  show "indexPost x = Inr StatusInternalServerError \<longleftrightarrow> decoded x = None"
  proof (cases "decoded x")
    case None
    then show ?thesis by (simp add: indexPost_not_decoded)
  next
    case (Some d)
    obtain msg attrs metadata data where d: "d = (msg, attrs, metadata, data)"
      by (cases d) auto
    show ?thesis
      using Some unfolding d
      by (simp add: indexPost_decoded StatusOK_def StatusInternalServerError_def
          split: sum.splits)
  qed
next
  assume "decoded x = Some (msg, attrs, metadata, data)"
  then show "indexPost x =
          (case processGithubEvent eventTypes (Parse x) msg attrs metadata data of
             Inl p \<Rightarrow> Inl p
           | Inr outcome \<Rightarrow> Inr StatusOK)"
    by (rule indexPost_decoded)
next
  show "StatusOK = 200" by (simp add: StatusOK_def)
next
  show "StatusInternalServerError = 500" by (simp add: StatusInternalServerError_def)
qed

theorem indexPost_status_witness:
  "indexPost sink_down = Inr StatusOK
   \<and> indexPost body_unreadable = Inr StatusInternalServerError
   \<and> decoded sink_down = Some (msg0, github_headers ''push'', push_1, ''{}'')
   \<and> decoded body_unreadable = None"
proof -
  have d: "decoded sink_down = Some (msg0, github_headers ''push'', push_1, ''{}'')"
    by (simp add: decoded_def sink_down_def)
  have u: "decoded body_unreadable = None"
    by (simp add: decoded_def sink_down_def body_unreadable_def)
  have p: "Parse sink_down = parse0"
    by (simp add: sink_down_def)
  from indexPost_status [of sink_down msg0 "github_headers ''push''" push_1 "''{}''"]
    indexPost_status [of body_unreadable msg0 "github_headers ''push''" push_1 "''{}''"]
    d u
  show ?thesis
    by (simp add: p push_1_event)
qed

end
